theory Spec2Isabelle
  imports Main "HOL-Library.Sublist"
begin

section \<open>Polycom: the web-socket connection hub and its configuration\<close>

text \<open>
  A shallow embedding of \<^verbatim>\<open>nettools/HTTPServer/HTTPServer.go\<close> and
  \<^verbatim>\<open>Config/config.go\<close>. Byte slices are \<open>string\<close> (a list of 8-bit
  characters), Go's \<open>int\<close> and \<open>time.Duration\<close> are \<open>int\<close>, an \<open>error\<close> is
  its message. What a function does to the outside world (the connection, the hub's
  channels, the logger, goroutines it starts) is the list of events it performs, in
  order; what the outside world answers (frames read, the \<open>select\<close> case taken, the
  handshake) is an argument.
\<close>

type_synonym bytes = string
type_synonym error = string

subsection \<open>Timing and size constants (HTTPServer.go, lines 17-22)\<close>

text \<open>\<open>time.Duration\<close> counts nanoseconds in an \<open>int64\<close>.\<close>

definition Second :: int where
  "Second = 1000000000"

definition writeWait :: int where
  "writeWait = 5 * Second"

definition pongWait :: int where
  "pongWait = 60 * Second"

definition pingPeriod :: int where
  "pingPeriod = (pongWait * 9) div 10"

definition maxMessageSize :: int where
  "maxMessageSize = 512"

subsection \<open>The logger's calls\<close>

text \<open>
  \<open>clog.Debug\<close>, \<open>clog.Info\<close>, \<open>clog.Warn\<close> and \<open>clog.Error\<close> take a package, a
  function, a format and its arguments. The logger itself is outside these two files:
  a call is recorded, not formatted.
\<close>

datatype clog_level = Debug | Info | Warn | Error

datatype clog_call = Clog clog_level string string string "string list"

subsection \<open>Configuration (config.go)\<close>

record ServerID =
  Name :: string

record Globals =
  LogLevel :: int
  StartLogging :: bool

record ConnectionLimit =
  MaxUsersConns :: int
  MaxMonitorsConns :: int
  MaxServersConns :: int
  MaxIncommingConns :: int

record ServersAddresses =
  HTTPaddr :: string
  TCPaddr :: string

record KnownBrothers =
  Servers :: "string \<rightharpoonup> string"

record HTTPServerConfig =
  ReadBufferSize :: int
  WriteBufferSize :: int
  HandshakeTimeout :: int

record TCPServerConfig =
  ConnectTimeOut :: int
  WriteTimeOut :: int
  ScalingCheckServerPeriod :: int

record Encryption =
  HASH_SIZE :: int
  HEX_KEY :: string
  HEX_IV :: string

text \<open>\<open>Data\<close> embeds the eight structs; an embedded field is named after its type.\<close>

record Data =
  ServerID :: ServerID
  Globals :: Globals
  ConnectionLimit :: ConnectionLimit
  ServersAddresses :: ServersAddresses
  KnownBrothers :: KnownBrothers
  HTTPServerConfig :: HTTPServerConfig
  TCPServerConfig :: TCPServerConfig
  Encryption :: Encryption

subsubsection \<open>The standard \<open>flag\<close> package, for string flags\<close>

text \<open>
  The process-wide \<open>flag.CommandLine\<close> set: each defined flag, by name, with the
  current value of its variable. \<open>Load\<close> defines string flags only. A pointer to a
  flag's variable is the flag's name.
\<close>

type_synonym FlagSet = "string \<rightharpoonup> string"

datatype flag_error =
    ErrHelp
  | BadSyntax string
  | NotDefined string
  | NeedsArgument string

text \<open>\<open>flag.String(name, value, usage)\<close>: defining a name twice panics.\<close>

definition flag_String :: "FlagSet \<Rightarrow> string \<Rightarrow> string \<Rightarrow> string + (string \<times> FlagSet)" where
  "flag_String formal name val =
     (if formal name \<noteq> None then Inl (''flag redefined: '' @ name)
      else Inr (name, formal(name \<mapsto> val)))"

text \<open>
  The \<open>name=value\<close> form of one argument: the first \<open>=\<close> after the first character
  splits it.
\<close>

definition split_value :: "string \<Rightarrow> string \<times> string option" where
  "split_value name =
     (case name of
        [] \<Rightarrow> ([], None)
      | c # cs \<Rightarrow>
          (if CHR ''='' \<in> set cs
           then (c # takeWhile (\<lambda>x. x \<noteq> CHR ''='') cs,
                 Some (tl (dropWhile (\<lambda>x. x \<noteq> CHR ''='') cs)))
           else (name, None)))"

text \<open>
  \<open>flag.Parse()\<close> over \<open>os.Args[1:]\<close>, that is \<open>parseOne\<close> until it sees no flag.
  \<open>Inl\<close> is the error on which the \<open>ExitOnError\<close> handling of \<open>CommandLine\<close> ends
  the process.
\<close>

fun flag_Parse :: "FlagSet \<Rightarrow> string list \<Rightarrow> flag_error + FlagSet" where
  "flag_Parse formal [] = Inr formal"
| "flag_Parse formal (s # args) =
     (if length s < 2 \<or> hd s \<noteq> CHR ''-'' then Inr formal
      else if s = ''--'' then Inr formal
      else
        let name = (if s ! 1 = CHR ''-'' then drop 2 s else drop 1 s) in
        if name = [] \<or> hd name = CHR ''-'' \<or> hd name = CHR ''='' then Inl (BadSyntax s)
        else
          (case split_value name of
             (n, v) \<Rightarrow>
               if formal n = None
               then (if n = ''help'' \<or> n = ''h'' then Inl ErrHelp else Inl (NotDefined n))
               else
                 (case v of
                    Some val \<Rightarrow> flag_Parse (formal(n \<mapsto> val)) args
                  | None \<Rightarrow>
                      (case args of
                         [] \<Rightarrow> Inl (NeedsArgument n)
                       | val # args' \<Rightarrow> flag_Parse (formal(n \<mapsto> val)) args'))))"

subsubsection \<open>The settings file\<close>

text \<open>
  The \<open>go-ini\<close> library is not part of the repository. A loaded file is what its
  three methods answer: \<open>cfg.MapTo(conf)\<close> overwrites fields of \<open>conf\<close> in place and
  returns an error or \<open>nil\<close>, \<open>cfg.GetSection(name)\<close> returns a section or an
  error, and a section's \<open>KeysHash()\<close> is a map.
\<close>

record ini_Section =
  KeysHash :: "string \<rightharpoonup> string"

record ini_File =
  MapTo :: "Data \<Rightarrow> Data \<times> error option"
  GetSection :: "string \<Rightarrow> error + ini_Section"

text \<open>What the process finds around it: its arguments, \<open>$GOPATH\<close>, the files.\<close>

record os_env =
  Args :: "string list"
  GOPATH :: string
  ini_Load :: "string \<Rightarrow> error + ini_File"

datatype load_result =
    Panic string
  | Exit flag_error
  | Return Data "error option"

text \<open>
  \<open>Load\<close>, from the state of the flag set to its result, the flag set it leaves and
  the logger calls it made. The built-in defaults are the composite literal of lines
  68-97; \<open>ServerID{}\<close>, \<open>ServersAddresses{}\<close> and \<open>KnownBrothers{}\<close> are zero values.
\<close>

definition defaults :: Data where
  "defaults =
     \<lparr>ServerID = \<lparr>Name = ''''\<rparr>,
      Globals = \<lparr>LogLevel = 4, StartLogging = True\<rparr>,
      ConnectionLimit =
        \<lparr>MaxUsersConns = 100, MaxMonitorsConns = 3, MaxServersConns = 5,
         MaxIncommingConns = 50\<rparr>,
      ServersAddresses = \<lparr>HTTPaddr = '''', TCPaddr = ''''\<rparr>,
      KnownBrothers = \<lparr>Servers = Map.empty\<rparr>,
      HTTPServerConfig =
        \<lparr>ReadBufferSize = 4096, WriteBufferSize = 4096, HandshakeTimeout = 5\<rparr>,
      TCPServerConfig =
        \<lparr>ConnectTimeOut = 2, WriteTimeOut = 1, ScalingCheckServerPeriod = 10\<rparr>,
      Encryption =
        \<lparr>HASH_SIZE = 8,
         HEX_KEY = ''0000000000000000000000000000000000000000000000000000000000000000'',
         HEX_IV = ''00000000000000000000000000000000''\<rparr>\<rparr>"

text \<open>
  Lines 103-114, on the configuration built so far. \<open>sec1, err := cfg.GetSection(...)\<close>
  assigns the \<open>err\<close> that \<open>MapTo\<close> had set, so the error returned with a loaded file is
  that of \<open>GetSection\<close>.
\<close>

definition Load_file :: "os_env \<Rightarrow> Data \<Rightarrow> Data \<times> error option \<times> clog_call list" where
  "Load_file env conf =
     (case ini_Load env (GOPATH env @ ''/etc/server.ini'') of
        Inl err \<Rightarrow>
          (conf, Some err, [Clog Error ''server'' ''getConf'' ''Invalid conf file: %s'' [err]])
      | Inr cfg \<Rightarrow>
          (case MapTo cfg conf of
             (conf', err) \<Rightarrow>
               (case GetSection cfg ''KnownBrothers'' of
                  Inr sec1 \<Rightarrow>
                    (conf'\<lparr>KnownBrothers := (KnownBrothers conf')\<lparr>Servers := KeysHash sec1\<rparr>\<rparr>,
                     None, [])
                | Inl err' \<Rightarrow> (conf', Some err', []))))"

text \<open>
  Lines 99-101: \<open>*flag.String(...)\<close> reads the new flag's variable at once, then
  \<open>flag.Parse()\<close> writes the command line's values into the flags' variables.
\<close>

definition Load :: "os_env \<Rightarrow> FlagSet \<Rightarrow> load_result \<times> FlagSet \<times> clog_call list" where
  "Load env formal =
     (case flag_String formal ''httpaddr'' ''localhost:8080'' of
        Inl msg \<Rightarrow> (Panic msg, formal, [])
      | Inr (p1, formal1) \<Rightarrow>
          (case formal1 p1 of
             None \<Rightarrow> (Panic ''nil pointer dereference'', formal1, [])
           | Some v1 \<Rightarrow>
               (case flag_String formal1 ''tcpaddr'' ''localhost:8081'' of
                  Inl msg \<Rightarrow> (Panic msg, formal1, [])
                | Inr (p2, formal2) \<Rightarrow>
                    (case formal2 p2 of
                       None \<Rightarrow> (Panic ''nil pointer dereference'', formal2, [])
                     | Some v2 \<Rightarrow>
                         (case flag_Parse formal2 (Args env) of
                            Inl e \<Rightarrow> (Exit e, formal2, [])
                          | Inr formal3 \<Rightarrow>
                              (case Load_file env
                                      (defaults\<lparr>ServersAddresses :=
                                         \<lparr>HTTPaddr = v1, TCPaddr = v2\<rparr>\<rparr>) of
                                 (conf, err, logged) \<Rightarrow>
                                   (Return conf err, formal3, logged)))))))"

subsection \<open>The hub's declarations used by the server (package Hub)\<close>

text \<open>
  Modelled from the spec: package \<open>Hub\<close> is not among the sources; the server names
  \<open>Hub.ClientUndefined\<close>, \<open>Hub.ClientUser\<close> and \<open>Hub.ReadWrite\<close>, and the spec (section 3)
  gives the roles Undefined, User, Monitor, Server, Incoming and the access modes
  "ReadWrite, ...".
\<close>

datatype CType = ClientUndefined | ClientUser | ClientMonitor | ClientServer | ClientIncoming

datatype Mode = ReadWrite | OtherMode nat

text \<open>
  A channel made by \<open>make(chan T, n)\<close>: its capacity, what it holds, whether it was
  closed.
\<close>

record 'a chan =
  cap :: nat
  buf :: "'a list"
  closed :: bool

definition make_chan :: "nat \<Rightarrow> 'a chan" where
  "make_chan n = \<lparr>cap = n, buf = [], closed = False\<rparr>"

text \<open>
  A \<open>*websocket.Conn\<close> is known by a number and by its peer's address. The action
  handler \<open>cta\<close> is opaque to the server (spec 4.5): a number stands for it, and so
  does one for the \<open>*Hub.Hub\<close> a client points back to.
\<close>

record Conn =
  fd :: nat
  RemoteAddr :: string

type_synonym CallToAction = nat
type_synonym Hub_ptr = nat

text \<open>The fields of \<open>Hub.Client\<close> that the composite literal of \<open>wsConnect\<close> sets.\<close>

record Client =
  Hub :: Hub_ptr
  Conn :: Conn
  Quit :: "bool chan"
  CType :: CType
  Send :: "bytes chan"
  CallToAction :: CallToAction
  Addr :: string
  Identified :: bool
  Name :: string
  Content_id :: int
  Front_id :: string
  App_id :: string
  Country :: string
  User_agent :: string
  Mode :: Mode

text \<open>
  Modelled from the spec: the hub's directory is not among the sources. Section 4.1:
  \<open>Exists(identity, role)\<close> is true iff a record with that identity is registered
  under that role; \<open>Admit\<close> rejects on an identity collision for the role, or when the
  role's configured ceiling would be exceeded, and otherwise makes the record visible.
\<close>

record Directory =
  members :: "Client list"
  ceiling :: "CType \<Rightarrow> nat"

definition UserExists :: "Directory \<Rightarrow> string \<Rightarrow> CType \<Rightarrow> bool" where
  "UserExists d name role = list_ex (\<lambda>c. Name c = name \<and> CType c = role) (members d)"




subsection \<open>What the server does, as events\<close>

text \<open>
  Calls on the connection, on the ticker, on the logger and on the hub's two channels,
  and the goroutines started. A deadline is recorded by the duration added to
  \<open>time.Now()\<close>. A \<open>*Hub.Client\<close> is recorded by the value \<open>wsConnect\<close> gave it.
\<close>

datatype event =
    Log clog_call
  | Close Conn
  | SetReadLimit Conn int
  | SetReadDeadline Conn int
  | SetPongHandler Conn
  | SetWriteDeadline Conn int
  | WriteMessage Conn int bytes
  | NewTicker int
  | Ticker_Stop
  | Go_CallToAction Client bytes
  | Go_Writer Client
  | Register Client
  | Unregister Client

text \<open>
  How far a function got on what the outside world gave it: it returned, it is still
  waiting (for a frame, for a \<open>select\<close> case), or it panicked.
\<close>

datatype status = Returned | Blocked | Panicked string

subsection \<open>The two library calls of the normalisation (line 84)\<close>

definition Newline :: bytes where
  "Newline = [CHR 0x0D, CHR 0x0A]"

definition Space :: bytes where
  "Space = [CHR 0x20]"

text \<open>
  \<open>bytes.Replace(message, Newline, Space, -1)\<close>: every non-overlapping occurrence of
  the two bytes of \<open>Newline\<close>, found from the left, becomes \<open>Space\<close>.
\<close>

fun Replace_Newline_Space :: "bytes \<Rightarrow> bytes" where
  "Replace_Newline_Space (a # b # s) =
     (if [a, b] = Newline then Space @ Replace_Newline_Space s
      else a # Replace_Newline_Space (b # s))"
| "Replace_Newline_Space s = s"

text \<open>
  \<open>bytes.TrimSpace\<close> slices off all leading and trailing white space, as defined by
  Unicode: the runes for which \<open>unicode.IsSpace\<close> holds, here by their UTF-8
  encodings (U+0009 to U+000D, U+0020, U+0085, U+00A0, U+1680, U+2000 to U+200A,
  U+2028, U+2029, U+202F, U+205F, U+3000). An invalid or truncated sequence decodes to
  \<open>utf8.RuneError\<close>, which is not white space, so trimming stops there.
\<close>

definition white_space :: "bytes list" where
  "white_space =
     [[CHR 0x09], [CHR 0x0A], [CHR 0x0B], [CHR 0x0C], [CHR 0x0D], [CHR 0x20],
      [CHR 0xC2, CHR 0x85], [CHR 0xC2, CHR 0xA0],
      [CHR 0xE1, CHR 0x9A, CHR 0x80],
      [CHR 0xE2, CHR 0x80, CHR 0x80], [CHR 0xE2, CHR 0x80, CHR 0x81],
      [CHR 0xE2, CHR 0x80, CHR 0x82], [CHR 0xE2, CHR 0x80, CHR 0x83],
      [CHR 0xE2, CHR 0x80, CHR 0x84], [CHR 0xE2, CHR 0x80, CHR 0x85],
      [CHR 0xE2, CHR 0x80, CHR 0x86], [CHR 0xE2, CHR 0x80, CHR 0x87],
      [CHR 0xE2, CHR 0x80, CHR 0x88], [CHR 0xE2, CHR 0x80, CHR 0x89],
      [CHR 0xE2, CHR 0x80, CHR 0x8A],
      [CHR 0xE2, CHR 0x80, CHR 0xA8], [CHR 0xE2, CHR 0x80, CHR 0xA9],
      [CHR 0xE2, CHR 0x80, CHR 0xAF],
      [CHR 0xE2, CHR 0x81, CHR 0x9F],
      [CHR 0xE3, CHR 0x80, CHR 0x80]]"

text \<open>The white-space rune a slice starts with, and the one it ends with.\<close>

definition leading_space :: "bytes \<Rightarrow> bytes option" where
  "leading_space s = find (\<lambda>t. prefix t s) white_space"

definition trailing_space :: "bytes \<Rightarrow> bytes option" where
  "trailing_space s = find (\<lambda>t. suffix t s) white_space"

function TrimLeft :: "bytes \<Rightarrow> bytes" where
  "TrimLeft s =
     (case leading_space s of
        None \<Rightarrow> s
      | Some t \<Rightarrow> TrimLeft (drop (length t) s))"
  by pat_completeness auto

function TrimRight :: "bytes \<Rightarrow> bytes" where
  "TrimRight s =
     (case trailing_space s of
        None \<Rightarrow> s
      | Some t \<Rightarrow> TrimRight (take (length s - length t) s))"
  by pat_completeness auto

lemma leading_space_Some: "leading_space s = Some t \<Longrightarrow> t \<noteq> [] \<and> prefix t s"
  unfolding leading_space_def white_space_def
  by (auto simp: find_Some_iff nth_Cons' split: if_splits)

lemma trailing_space_Some: "trailing_space s = Some t \<Longrightarrow> t \<noteq> [] \<and> suffix t s"
  unfolding trailing_space_def white_space_def
  by (auto simp: find_Some_iff nth_Cons' split: if_splits)

termination TrimLeft
proof (relation "measure length")
  fix s t assume "leading_space s = Some t"
  then have "t \<noteq> []" "prefix t s" using leading_space_Some by blast+
  then show "(drop (length t) s, s) \<in> measure length"
    by (cases s) (auto simp: prefix_def)
qed simp

termination TrimRight
proof (relation "measure length")
  fix s t assume "trailing_space s = Some t"
  then have "t \<noteq> []" "suffix t s" using trailing_space_Some by blast+
  then show "(take (length s - length t) s, s) \<in> measure length"
    by (cases s) (auto simp: suffix_def)
qed simp

declare TrimLeft.simps [simp del] TrimRight.simps [simp del]

definition TrimSpace :: "bytes \<Rightarrow> bytes" where
  "TrimSpace s = TrimRight (TrimLeft s)"

subsection \<open>The inbound pump (\<open>Reader\<close>, lines 57-89)\<close>

text \<open>
  What \<open>conn.ReadMessage()\<close> meets, in order: a data frame, which it returns with its
  type; a pong, on which the library calls the pong handler set at line 65 and goes on
  waiting (the handler returns \<open>nil\<close>); or an error, which it returns. An oversized
  frame and an expired read deadline are errors. When the list is used up the call has
  not returned yet.
\<close>

datatype read = Message int bytes | Pong string | ReadError error

fun Reader_loop :: "Client \<Rightarrow> read list \<Rightarrow> status \<times> event list" where
  "Reader_loop c [] = (Blocked, [])"
| "Reader_loop c (ReadError err # rs) = (Returned, [])"
| "Reader_loop c (Pong appData # rs) =
     (case Reader_loop c rs of
        (st, evs) \<Rightarrow>
          (st, SetReadDeadline (Conn c) pongWait
               # Log (Clog Debug ''HTTPServer'' ''Reader'' ''PONG! from %s'' [Name c])
               # evs))"
| "Reader_loop c (Message mt message # rs) =
     (case Reader_loop c rs of
        (st, evs) \<Rightarrow>
          (st, Go_CallToAction c (TrimSpace (Replace_Newline_Space message)) # evs))"

text \<open>The deferred \<open>Close\<close> runs when the loop is left.\<close>

definition Reader :: "Client \<Rightarrow> read list \<Rightarrow> status \<times> event list" where
  "Reader c rs =
     (case Reader_loop c rs of
        (st, evs) \<Rightarrow>
          (st, [SetReadLimit (Conn c) maxMessageSize,
                SetReadDeadline (Conn c) pongWait,
                SetPongHandler (Conn c)]
               @ evs
               @ (if st = Returned then [Close (Conn c)] else [])))"

subsection \<open>The outbound pump (\<open>_write\<close> and \<open>Writer\<close>, lines 96-133)\<close>

text \<open>The message types and close codes of the web-socket library.\<close>

definition TextMessage :: int where
  "TextMessage = 1"

definition CloseMessage :: int where
  "CloseMessage = 8"

definition PingMessage :: int where
  "PingMessage = 9"

definition CloseNormalClosure :: int where
  "CloseNormalClosure = 1000"

definition CloseNoStatusReceived :: int where
  "CloseNoStatusReceived = 1005"

text \<open>
  \<open>websocket.FormatCloseMessage\<close>: the close code as a big-endian \<open>uint16\<close>, then the
  text.
\<close>

definition FormatCloseMessage :: "int \<Rightarrow> string \<Rightarrow> bytes" where
  "FormatCloseMessage closeCode txt =
     (if closeCode = CloseNoStatusReceived then []
      else [char_of (closeCode div 256), char_of closeCode] @ txt)"

text \<open>
  \<open>_write\<close>, here \<open>ws_write\<close>: the calls it makes. What
  \<open>ws.WriteMessage\<close> returns comes with the \<open>select\<close> case below.
\<close>

definition ws_write :: "Conn \<Rightarrow> int \<Rightarrow> bytes \<Rightarrow> event list" where
  "ws_write ws mt message = [SetWriteDeadline ws writeWait, WriteMessage ws mt message]"

text \<open>
  The case a \<open>select\<close> of the loop takes: a message received from \<open>c.Send\<close>, \<open>c.Send\<close>
  found closed and empty (\<open>ok\<close> is false), a tick, or \<open>c.Quit\<close>. With a case that
  writes comes what the write returns, \<open>None\<close> for \<open>nil\<close>. When the list is used up
  the \<open>select\<close> is still waiting.
\<close>

datatype selected =
    FromSend bytes "error option"
  | SendClosed "error option"
  | Tick "error option"
  | FromQuit

fun Writer_loop :: "Client \<Rightarrow> selected list \<Rightarrow> status \<times> event list" where
  "Writer_loop c [] = (Blocked, [])"
| "Writer_loop c (SendClosed werr # ss) =
     (Returned,
      Log (Clog Warn ''HTTPServer'' ''Writer'' ''Error: %s'' [''false''])
      # ws_write (Conn c) CloseMessage (FormatCloseMessage CloseNormalClosure ''Disconnected'')
      @ (case werr of
           None \<Rightarrow> []
         | Some err \<Rightarrow>
             [Log (Clog Error ''HTTPServer'' ''_close'' ''Cannot write CloseMessage to %s''
                     [Name c])]))"
| "Writer_loop c (FromSend message werr # ss) =
     (case werr of
        Some err \<Rightarrow> (Returned, ws_write (Conn c) TextMessage message)
      | None \<Rightarrow>
          (case Writer_loop c ss of
             (st, evs) \<Rightarrow> (st, ws_write (Conn c) TextMessage message @ evs)))"
| "Writer_loop c (Tick werr # ss) =
     (case werr of
        Some err \<Rightarrow>
          (Returned,
           Log (Clog Debug ''HTTPServer'' ''Writer'' ''Client %s Ping!'' [Name c])
           # ws_write (Conn c) PingMessage [])
      | None \<Rightarrow>
          (case Writer_loop c ss of
             (st, evs) \<Rightarrow>
               (st, Log (Clog Debug ''HTTPServer'' ''Writer'' ''Client %s Ping!'' [Name c])
                    # ws_write (Conn c) PingMessage [] @ evs)))"
| "Writer_loop c (FromQuit # ss) = (Returned, [])"

text \<open>The deferred \<open>ticker.Stop()\<close> and \<open>Close\<close> run when the loop is left.\<close>

definition Writer :: "Client \<Rightarrow> selected list \<Rightarrow> status \<times> event list" where
  "Writer c ss =
     (case Writer_loop c ss of
        (st, evs) \<Rightarrow>
          (st, NewTicker pingPeriod # evs
               @ (if st = Returned then [Ticker_Stop, Close (Conn c)] else [])))"

subsection \<open>Registration (\<open>wsConnect\<close>, lines 172-199)\<close>

text \<open>\<open>r.Header\<close>: a missing key reads as the empty list.\<close>

record Request =
  Header :: "string \<Rightarrow> string list"

text \<open>The composite literal of lines 192-194.\<close>

definition new_Client :: "Hub_ptr \<Rightarrow> Conn \<Rightarrow> string \<Rightarrow> string \<Rightarrow> CallToAction \<Rightarrow> Client" where
  "new_Client hub httpconn name ua cta =
     \<lparr>Hub = hub, Conn = httpconn, Quit = make_chan 0,
      CType = ClientUndefined, Send = make_chan 256, CallToAction = cta,
      Addr = RemoteAddr httpconn, Identified = False, Name = name,
      Content_id = 0, Front_id = '''', App_id = '''', Country = '''',
      User_agent = ua, Mode = ReadWrite\<rparr>"

text \<open>
  \<open>wsConnect\<close> on the hub pointer \<open>m.Hub\<close>, the state of that hub's directory when
  \<open>UserExists\<close> is asked, what \<open>m.Upgrader.Upgrade\<close> returns, the request, the action
  handler, and what the reads on the new connection meet. The sends on
  \<open>m.Hub.Register\<close> and \<open>m.Hub.Unregister\<close> return nothing to the sender. The outbound
  pump runs in a goroutine of its own: starting it is one event. Indexing an empty
  header list panics.
\<close>

definition wsConnect ::
  "Hub_ptr \<Rightarrow> Directory \<Rightarrow> error + Conn \<Rightarrow> Request \<Rightarrow> CallToAction \<Rightarrow> read list
     \<Rightarrow> status \<times> event list" where
  "wsConnect hub dir upgrade r cta reads =
     (case upgrade of
        Inl err \<Rightarrow> (Returned, [Log (Clog Error ''HTTPServer'' ''wsConnect'' ''%s'' [err])])
      | Inr httpconn \<Rightarrow>
          (case Header r ''Sec-Websocket-Key'' of
             [] \<Rightarrow> (Panicked ''index out of range'', [])
           | name # _ \<Rightarrow>
               (let ua = (case Header r ''User-Agent'' of [] \<Rightarrow> ''n/a'' | u # _ \<Rightarrow> u) in
                if UserExists dir name ClientUser
                then (Returned,
                      [Log (Clog Warn ''HTTPServer'' ''wsConnect''
                              ''Client %s already exists ... Refusing connection'' [name])])
                else
                  (let client = new_Client hub httpconn name ua cta
                   in
                   (case Reader client reads of
                      (st, evs) \<Rightarrow>
                        (st, [Register client, Go_Writer client] @ evs
                             @ (if st = Returned then [Unregister client] else [])))))))"

subsection \<open>Reading a list of events or of reads\<close>



text \<open>Whether some call of \<open>ReadMessage\<close> returns an error.\<close>

fun read_fails :: "read list \<Rightarrow> bool" where
  "read_fails [] = False"
| "read_fails (ReadError err # rs) = True"
| "read_fails (r # rs) = read_fails rs"

subsection \<open>Concrete runs\<close>

text \<open>
  A handshake from \<open>10.0.0.2\<close> whose key is \<open>peer1\<close> and which sends no
  \<open>User-Agent\<close>, and the record \<open>wsConnect\<close> makes of it for the hub at address 1 and
  the handler 0.
\<close>

definition conn1 :: Conn where
  "conn1 = \<lparr>fd = 7, RemoteAddr = ''10.0.0.2:51234''\<rparr>"

definition request1 :: Request where
  "request1 = \<lparr>Header = (\<lambda>k. if k = ''Sec-Websocket-Key'' then [''peer1''] else [])\<rparr>"

definition client1 :: Client where
  "client1 = new_Client 1 conn1 ''peer1'' ''n/a'' 0"

text \<open>
  Three directories: an empty one; one where a user named \<open>peer1\<close> is registered; one
  whose ceiling of one record per role is reached for the role Undefined.
\<close>

definition dir_empty :: Directory where
  "dir_empty = \<lparr>members = [], ceiling = (\<lambda>role. 100)\<rparr>"

definition dir_peer1 :: Directory where
  "dir_peer1 =
     \<lparr>members =
        [(new_Client 1 \<lparr>fd = 3, RemoteAddr = ''10.0.0.1:40000''\<rparr> ''peer1'' ''n/a'' 0)
           \<lparr>CType := ClientUser, Identified := True\<rparr>],
      ceiling = (\<lambda>role. 100)\<rparr>"


text \<open>
  A session: one text frame with blanks and line breaks around its words, a pong, then
  the peer going away.
\<close>

definition frame1 :: bytes where
  "frame1 = ''  GET'' @ Newline @ ''status '' @ Newline"

definition reads1 :: "read list" where
  "reads1 =
     [Message 1 frame1,
      Pong [],
      ReadError ''websocket: close 1001 (going away)'']"

text \<open>
  A process started with both addresses on its command line, with no settings file
  under \<open>$GOPATH\<close>.
\<close>

definition env_cli :: os_env where
  "env_cli =
     \<lparr>Args = [''-httpaddr=0.0.0.0:9000'', ''--tcpaddr'', ''0.0.0.0:9001''],
      GOPATH = ''/go'',
      ini_Load = (\<lambda>path. Inl (''open '' @ path @ '': no such file or directory''))\<rparr>"

section \<open>Lemmas\<close>


lemma Replace_Newline_Cons:
  "Replace_Newline_Space (CHR 0x0D # CHR 0x0A # s) = Space @ Replace_Newline_Space s"
  by (simp add: Newline_def)





















lemma Reader_loop_status:
  "fst (Reader_loop c rs) = (if read_fails rs then Returned else Blocked)"
  by (induction c rs rule: Reader_loop.induct) (auto split: prod.splits)

lemma Reader_status: "fst (Reader c rs) = (if read_fails rs then Returned else Blocked)"
  using Reader_loop_status [of c rs] by (auto simp: Reader_def split: prod.splits)

lemma Reader_loop_hub_free:
  "Register c' \<notin> set (snd (Reader_loop c rs)) \<and> Unregister c' \<notin> set (snd (Reader_loop c rs))
   \<and> Go_Writer c' \<notin> set (snd (Reader_loop c rs)) \<and> Close k \<notin> set (snd (Reader_loop c rs))"
  by (induction c rs rule: Reader_loop.induct) (auto split: prod.splits)

lemma Reader_hub_free:
  "Register c' \<notin> set (snd (Reader c rs)) \<and> Unregister c' \<notin> set (snd (Reader c rs))
   \<and> Go_Writer c' \<notin> set (snd (Reader c rs))"
  using Reader_loop_hub_free [of c' c rs] by (auto simp: Reader_def split: prod.splits)


lemma Reader_ends_with_Close:
  "read_fails rs \<Longrightarrow> \<exists>evs. snd (Reader c rs) = evs @ [Close (Conn c)]"
  using Reader_loop_status [of c rs] by (auto simp: Reader_def split: prod.splits)

lemma wsConnect_registered:
  assumes reg: "Register c \<in> set (snd (wsConnect hub dir upgrade r cta reads))"
  shows "\<exists>httpconn name more.
           upgrade = Inr httpconn \<and> Header r ''Sec-Websocket-Key'' = name # more
           \<and> \<not> UserExists dir name ClientUser
           \<and> c = new_Client hub httpconn name
                   (case Header r ''User-Agent'' of [] \<Rightarrow> ''n/a'' | u # _ \<Rightarrow> u) cta
           \<and> wsConnect hub dir upgrade r cta reads
               = (fst (Reader c reads),
                  [Register c, Go_Writer c] @ snd (Reader c reads)
                  @ (if fst (Reader c reads) = Returned then [Unregister c] else []))"
proof (cases upgrade)
  case (Inl err)
  with reg show ?thesis by (simp add: wsConnect_def)
next
  case (Inr httpconn)
  show ?thesis
  proof (cases "Header r ''Sec-Websocket-Key''")
    case Nil
    with reg Inr show ?thesis by (simp add: wsConnect_def)
  next
    case (Cons name more)
    show ?thesis
    proof (cases "UserExists dir name ClientUser")
      case True
      with reg Inr Cons show ?thesis by (simp add: wsConnect_def)
    next
      case False
      define cl where "cl = new_Client hub httpconn name
          (case Header r ''User-Agent'' of [] \<Rightarrow> ''n/a'' | u # _ \<Rightarrow> u) cta"
      have w: "wsConnect hub dir upgrade r cta reads
               = (fst (Reader cl reads),
                  [Register cl, Go_Writer cl] @ snd (Reader cl reads)
                  @ (if fst (Reader cl reads) = Returned then [Unregister cl] else []))"
        using Inr Cons False
        by (simp add: wsConnect_def cl_def Let_def split: prod.splits)
      have "c = cl"
        using reg Reader_hub_free [of c cl reads] unfolding w
        by (auto split: if_splits)
      with w Inr Cons False show ?thesis by (simp add: cl_def)
    qed
  qed
qed

lemma Writer_loop_append:
  "fst (Writer_loop c pre) = Blocked \<Longrightarrow>
     Writer_loop c (pre @ ss)
       = (fst (Writer_loop c ss), snd (Writer_loop c pre) @ snd (Writer_loop c ss))"
  by (induction c pre rule: Writer_loop.induct) (auto split: option.splits prod.splits)

lemma close_frame:
  "FormatCloseMessage CloseNormalClosure ''Disconnected'' = [CHR 0x03, CHR 0xE8] @ ''Disconnected''"
  by (simp add: FormatCloseMessage_def CloseNormalClosure_def CloseNoStatusReceived_def char_of_def)

section \<open>Properties\<close>

subsection \<open>Registration\<close>

text \<open>
  C1. A connection whose key is already registered under the role User is refused: a
  warning is logged and \<open>wsConnect\<close> returns, and no record is made, sent to the hub or
  given a pump. The handshake had already upgraded the connection, and the refusal
  does not close it: for the handshake of \<open>peer1\<close> against a directory where the user
  \<open>peer1\<close> is registered, the warning is the only event.
\<close>

theorem duplicate_refused_without_Close:
  "UserExists dir_peer1 ''peer1'' ClientUser
   \<and> wsConnect 1 dir_peer1 (Inr conn1) request1 0 reads1
       = (Returned,
          [Log (Clog Warn ''HTTPServer'' ''wsConnect''
                  ''Client %s already exists ... Refusing connection'' [''peer1''])])
   \<and> Close conn1 \<notin> set (snd (wsConnect 1 dir_peer1 (Inr conn1) request1 0 reads1))"
  by (simp add: wsConnect_def dir_peer1_def UserExists_def request1_def new_Client_def)




text \<open>
  C3. For every record sent on \<open>Register\<close>: the inbound pump returns exactly when some
  read fails, whatever the error; then \<open>wsConnect\<close> returns too, and the record is sent on
  \<open>Unregister\<close> exactly once, as the last event, right after the connection is
  closed. While no read has failed the pump is still reading and nothing has been sent
  on \<open>Unregister\<close>. No other record is ever sent on \<open>Unregister\<close>.
\<close>

theorem Unregister_exactly_once:
  assumes "Register c \<in> set (snd (wsConnect hub dir upgrade r cta reads))"
  shows "(fst (Reader c reads) = Returned \<longleftrightarrow> read_fails reads)
     \<and> (read_fails reads \<longrightarrow>
          fst (wsConnect hub dir upgrade r cta reads) = Returned
          \<and> count_list (snd (wsConnect hub dir upgrade r cta reads)) (Unregister c) = 1
          \<and> (\<exists>evs. snd (wsConnect hub dir upgrade r cta reads)
                      = evs @ [Close (Conn c), Unregister c]))
     \<and> (\<not> read_fails reads \<longrightarrow>
          fst (wsConnect hub dir upgrade r cta reads) = Blocked
          \<and> count_list (snd (wsConnect hub dir upgrade r cta reads)) (Unregister c) = 0)
     \<and> (\<forall>c'. c' \<noteq> c \<longrightarrow>
          count_list (snd (wsConnect hub dir upgrade r cta reads)) (Unregister c') = 0)"
proof -
  let ?w = "wsConnect hub dir upgrade r cta reads"
  from wsConnect_registered [OF assms]
  have w: "?w = (fst (Reader c reads),
                 [Register c, Go_Writer c] @ snd (Reader c reads)
                 @ (if fst (Reader c reads) = Returned then [Unregister c] else []))"
    by blast
  have none: "count_list (snd (Reader c reads)) (Unregister c') = 0" for c'
    using Reader_hub_free [of c' c reads] by (simp add: count_list_0_iff)
  have st: "fst (Reader c reads) = (if read_fails reads then Returned else Blocked)"
    by (rule Reader_status)
  show ?thesis
  proof (cases "read_fails reads")
    case True
    then obtain evs where "snd (Reader c reads) = evs @ [Close (Conn c)]"
      using Reader_ends_with_Close by blast
    with True st none [of c] show ?thesis
      using none by (auto simp: w)
  next
    case False
    with st none show ?thesis by (simp add: w)
  qed
qed

theorem Unregister_exactly_once_witness:
  "Register client1 \<in> set (snd (wsConnect 1 dir_empty (Inr conn1) request1 0 reads1))
   \<and> read_fails reads1
   \<and> fst (wsConnect 1 dir_empty (Inr conn1) request1 0 reads1) = Returned
   \<and> count_list (snd (wsConnect 1 dir_empty (Inr conn1) request1 0 reads1))
        (Unregister client1) = 1
   \<and> (\<exists>evs. snd (wsConnect 1 dir_empty (Inr conn1) request1 0 reads1)
               = evs @ [Close (Conn client1), Unregister client1])"
proof -
  have w: "wsConnect 1 dir_empty (Inr conn1) request1 0 reads1
           = (fst (Reader client1 reads1),
              [Register client1, Go_Writer client1] @ snd (Reader client1 reads1)
              @ (if fst (Reader client1 reads1) = Returned then [Unregister client1] else []))"
    by (simp add: wsConnect_def dir_empty_def UserExists_def request1_def new_Client_def
        client1_def Let_def split: prod.splits)
  have reg: "Register client1 \<in> set (snd (wsConnect 1 dir_empty (Inr conn1) request1 0 reads1))"
    unfolding w by simp
  have f: "read_fails reads1"
    by (simp add: reads1_def)
  from Unregister_exactly_once [OF reg] reg f show ?thesis by blast
qed

text \<open>
  C10. Every record sent on \<open>Register\<close> has an empty outbound queue, open, of capacity
  256; its role is Undefined, it is not identified, its access mode is ReadWrite; and
  its user agent is the first \<open>User-Agent\<close> header of the request, or \<open>n/a\<close> when the
  request has none.
\<close>

theorem new_record_fields:
  assumes "Register c \<in> set (snd (wsConnect hub dir upgrade r cta reads))"
  shows "cap (Send c) = 256 \<and> buf (Send c) = [] \<and> \<not> closed (Send c)
         \<and> CType c = ClientUndefined \<and> \<not> Identified c \<and> Mode c = ReadWrite
         \<and> User_agent c = (case Header r ''User-Agent'' of [] \<Rightarrow> ''n/a'' | u # _ \<Rightarrow> u)
         \<and> (Header r ''User-Agent'' = [] \<longrightarrow> User_agent c = ''n/a'')"
  using wsConnect_registered [OF assms]
  by (auto simp: new_Client_def make_chan_def)

theorem new_record_fields_witness:
  "Register client1 \<in> set (snd (wsConnect 1 dir_empty (Inr conn1) request1 0 reads1))
   \<and> Header request1 ''User-Agent'' = []
   \<and> cap (Send client1) = 256 \<and> buf (Send client1) = [] \<and> \<not> closed (Send client1)
   \<and> CType client1 = ClientUndefined \<and> \<not> Identified client1 \<and> Mode client1 = ReadWrite
   \<and> User_agent client1 = ''n/a''"
proof -
  have w: "wsConnect 1 dir_empty (Inr conn1) request1 0 reads1
           = (fst (Reader client1 reads1),
              [Register client1, Go_Writer client1] @ snd (Reader client1 reads1)
              @ (if fst (Reader client1 reads1) = Returned then [Unregister client1] else []))"
    by (simp add: wsConnect_def dir_empty_def UserExists_def request1_def new_Client_def
        client1_def Let_def split: prod.splits)
  have reg: "Register client1 \<in> set (snd (wsConnect 1 dir_empty (Inr conn1) request1 0 reads1))"
    unfolding w by simp
  have h: "Header request1 ''User-Agent'' = []"
    by (simp add: request1_def)
  from new_record_fields [OF reg] reg h show ?thesis by simp
qed

subsection \<open>The inbound pump\<close>






subsection \<open>Constants\<close>

text \<open>
  C5. The write deadline is 5 seconds, the liveness timeout 60 seconds, the probe
  period nine tenths of the liveness timeout, that is 54 seconds (exactly: the
  division leaves no remainder, and the intermediate product fits an \<open>int64\<close>), and
  the largest inbound frame 512 bytes.
\<close>

theorem timing_constants:
  "writeWait = 5 * Second \<and> pongWait = 60 * Second
   \<and> pingPeriod = 54 * Second \<and> 10 * pingPeriod = 9 * pongWait
   \<and> pongWait * 9 < 2 ^ 63
   \<and> maxMessageSize = 512"
  by (simp add: writeWait_def pongWait_def pingPeriod_def maxMessageSize_def Second_def)

subsection \<open>The outbound pump\<close>

text \<open>
  C6. With the pump waiting in its \<open>select\<close>, after any cases that kept it going: when
  the receive from \<open>c.Send\<close> finds the channel closed and empty, the pump sets the write
  deadline \<open>writeWait\<close> from now, writes one close frame whose payload is the code 1000
  (normal closure) and the text \<open>Disconnected\<close>, and returns whether or not that write
  succeeds, stopping the ticker and closing the connection on its way out. When
  \<open>c.Quit\<close> fires it returns at once: after what it had done before there is no write,
  only the ticker stopped and the connection closed.
\<close>

theorem Writer_closed_or_quit:
  assumes "fst (Writer_loop c pre) = Blocked"
  shows "Writer c (pre @ SendClosed werr # rest)
           = (Returned,
              NewTicker pingPeriod # snd (Writer_loop c pre)
              @ [Log (Clog Warn ''HTTPServer'' ''Writer'' ''Error: %s'' [''false'']),
                 SetWriteDeadline (Conn c) writeWait,
                 WriteMessage (Conn c) CloseMessage ([CHR 0x03, CHR 0xE8] @ ''Disconnected'')]
              @ (case werr of
                   None \<Rightarrow> []
                 | Some err \<Rightarrow>
                     [Log (Clog Error ''HTTPServer'' ''_close''
                             ''Cannot write CloseMessage to %s'' [Name c])])
              @ [Ticker_Stop, Close (Conn c)])
         \<and> Writer c (pre @ FromQuit # rest)
           = (Returned,
              NewTicker pingPeriod # snd (Writer_loop c pre) @ [Ticker_Stop, Close (Conn c)])"
  using Writer_loop_append [OF assms, of "SendClosed werr # rest"]
    Writer_loop_append [OF assms, of "FromQuit # rest"]
  by (simp add: Writer_def ws_write_def close_frame)

theorem Writer_closed_or_quit_witness:
  "fst (Writer_loop client1 [FromSend ''hello'' None, Tick None]) = Blocked
   \<and> Writer client1 [FromSend ''hello'' None, Tick None, SendClosed None]
       = (Returned,
          [NewTicker (54 * Second),
           SetWriteDeadline conn1 (5 * Second), WriteMessage conn1 1 ''hello'',
           Log (Clog Debug ''HTTPServer'' ''Writer'' ''Client %s Ping!'' [''peer1'']),
           SetWriteDeadline conn1 (5 * Second), WriteMessage conn1 9 [],
           Log (Clog Warn ''HTTPServer'' ''Writer'' ''Error: %s'' [''false'']),
           SetWriteDeadline conn1 (5 * Second),
           WriteMessage conn1 8 ([CHR 0x03, CHR 0xE8] @ ''Disconnected''),
           Ticker_Stop, Close conn1])
   \<and> Writer client1 [FromSend ''hello'' None, Tick None, FromQuit, FromSend ''late'' None]
       = (Returned,
          [NewTicker (54 * Second),
           SetWriteDeadline conn1 (5 * Second), WriteMessage conn1 1 ''hello'',
           Log (Clog Debug ''HTTPServer'' ''Writer'' ''Client %s Ping!'' [''peer1'']),
           SetWriteDeadline conn1 (5 * Second), WriteMessage conn1 9 [],
           Ticker_Stop, Close conn1])"
proof -
  have b: "fst (Writer_loop client1 [FromSend ''hello'' None, Tick None]) = Blocked"
    by simp
  from Writer_closed_or_quit [OF b, of None "[]"]
       Writer_closed_or_quit [OF b, of None "[FromSend ''late'' None]"] b
  show ?thesis
    by (simp add: ws_write_def client1_def new_Client_def TextMessage_def PingMessage_def
        CloseMessage_def writeWait_def pingPeriod_def pongWait_def Second_def)
qed

subsection \<open>Configuration\<close>

text \<open>
  C7. When the settings file cannot be loaded, \<open>Load\<close> returns the error of \<open>ini.Load\<close>
  itself together with a configuration that holds the built-in defaults: log level 4
  with logging on, ceilings 100, 3, 5 and 50, both buffer sizes 4096, handshake
  timeout 5, the TCP timeouts 2 and 1 and period 10, hash size 8 with all-zero key and
  vector, and the two default addresses. It also logs the error. \<open>Load\<close> gets that far
  when the two flags were not defined before and the command line parses.
\<close>

theorem Load_missing_settings:
  assumes fresh: "formal ''httpaddr'' = None" "formal ''tcpaddr'' = None"
    and parsed:
      "flag_Parse (formal(''httpaddr'' \<mapsto> ''localhost:8080'', ''tcpaddr'' \<mapsto> ''localhost:8081''))
         (Args env) = Inr formal'"
    and missing: "ini_Load env (GOPATH env @ ''/etc/server.ini'') = Inl err"
  shows "\<exists>conf.
           Load env formal
             = (Return conf (Some err), formal',
                [Clog Error ''server'' ''getConf'' ''Invalid conf file: %s'' [err]])
           \<and> LogLevel (Globals conf) = 4 \<and> StartLogging (Globals conf)
           \<and> MaxUsersConns (ConnectionLimit conf) = 100
           \<and> MaxMonitorsConns (ConnectionLimit conf) = 3
           \<and> MaxServersConns (ConnectionLimit conf) = 5
           \<and> MaxIncommingConns (ConnectionLimit conf) = 50
           \<and> ReadBufferSize (HTTPServerConfig conf) = 4096
           \<and> WriteBufferSize (HTTPServerConfig conf) = 4096
           \<and> HandshakeTimeout (HTTPServerConfig conf) = 5
           \<and> ConnectTimeOut (TCPServerConfig conf) = 2
           \<and> WriteTimeOut (TCPServerConfig conf) = 1
           \<and> ScalingCheckServerPeriod (TCPServerConfig conf) = 10
           \<and> HASH_SIZE (Encryption conf) = 8
           \<and> HEX_KEY (Encryption conf) = replicate 64 CHR ''0''
           \<and> HEX_IV (Encryption conf) = replicate 32 CHR ''0''
           \<and> HTTPaddr (ServersAddresses conf) = ''localhost:8080''
           \<and> TCPaddr (ServersAddresses conf) = ''localhost:8081''
           \<and> ServerID.Name (ServerID conf) = ''''
           \<and> Servers (KnownBrothers conf) = Map.empty"
  using assms
  by (simp add: Load_def flag_String_def Load_file_def defaults_def eval_nat_numeral)

theorem Load_missing_settings_witness:
  "\<exists>conf formal'.
     Load (env_cli\<lparr>Args := []\<rparr>) Map.empty
       = (Return conf (Some ''open /go/etc/server.ini: no such file or directory''), formal',
          [Clog Error ''server'' ''getConf'' ''Invalid conf file: %s''
             [''open /go/etc/server.ini: no such file or directory'']])
     \<and> LogLevel (Globals conf) = 4
     \<and> MaxUsersConns (ConnectionLimit conf) = 100
     \<and> ReadBufferSize (HTTPServerConfig conf) = 4096
     \<and> HandshakeTimeout (HTTPServerConfig conf) = 5"
proof -
  have p: "flag_Parse
             ((Map.empty :: FlagSet)(''httpaddr'' \<mapsto> ''localhost:8080'', ''tcpaddr'' \<mapsto> ''localhost:8081''))
             (Args (env_cli\<lparr>Args := []\<rparr>))
           = Inr (Map.empty(''httpaddr'' \<mapsto> ''localhost:8080'', ''tcpaddr'' \<mapsto> ''localhost:8081''))"
    by simp
  have m: "ini_Load (env_cli\<lparr>Args := []\<rparr>) (GOPATH (env_cli\<lparr>Args := []\<rparr>) @ ''/etc/server.ini'')
           = Inl ''open /go/etc/server.ini: no such file or directory''"
    by (simp add: env_cli_def)
  from Load_missing_settings [OF _ _ p m] show ?thesis
    by auto
qed

text \<open>
  C8. Whenever \<open>Load\<close> returns, what it returns is what it returns with no arguments
  at all: the settings stage starts from the defaults with \<open>localhost:8080\<close> and
  \<open>localhost:8081\<close> in the two address fields, read from the flags' variables before
  \<open>flag.Parse\<close> wrote to them, and with no settings file these are the addresses
  returned. The values of the command line end in the flags' variables only.
\<close>

theorem Load_ignores_command_line:
  assumes "Load env formal = (Return conf err, formal', logged)"
  shows "fst (Load (env\<lparr>Args := []\<rparr>) formal) = Return conf err
         \<and> Load_file env
               (defaults\<lparr>ServersAddresses :=
                   \<lparr>HTTPaddr = ''localhost:8080'', TCPaddr = ''localhost:8081''\<rparr>\<rparr>)
             = (conf, err, logged)
         \<and> (\<forall>e. ini_Load env (GOPATH env @ ''/etc/server.ini'') = Inl e \<longrightarrow>
                HTTPaddr (ServersAddresses conf) = ''localhost:8080''
                \<and> TCPaddr (ServersAddresses conf) = ''localhost:8081'')"
proof -
  have f: "Load_file (env\<lparr>Args := []\<rparr>) d = Load_file env d" for d
    by (simp add: Load_file_def)
  from assms show ?thesis
    by (auto simp: Load_def flag_String_def f Load_file_def
        split: if_splits sum.splits prod.splits)
qed

theorem Load_ignores_command_line_witness:
  "(case Load env_cli Map.empty of
      (res, formal', logged) \<Rightarrow>
        formal' ''httpaddr'' = Some ''0.0.0.0:9000''
        \<and> formal' ''tcpaddr'' = Some ''0.0.0.0:9001''
        \<and> (\<exists>conf err.
              res = Return conf err
              \<and> HTTPaddr (ServersAddresses conf) = ''localhost:8080''
              \<and> TCPaddr (ServersAddresses conf) = ''localhost:8081''
              \<and> fst (Load (env_cli\<lparr>Args := []\<rparr>) Map.empty) = Return conf err))"
proof -
  have s1: "split_value ''httpaddr=0.0.0.0:9000'' = (''httpaddr'', Some ''0.0.0.0:9000'')"
    by (simp add: split_value_def)
  have s2: "split_value ''tcpaddr'' = (''tcpaddr'', None)"
    by (simp add: split_value_def)
  have l: "Load env_cli Map.empty
             = (Return
                  (defaults\<lparr>ServersAddresses :=
                      \<lparr>HTTPaddr = ''localhost:8080'', TCPaddr = ''localhost:8081''\<rparr>\<rparr>)
                  (Some ''open /go/etc/server.ini: no such file or directory''),
                [''httpaddr'' \<mapsto> ''0.0.0.0:9000'', ''tcpaddr'' \<mapsto> ''0.0.0.0:9001''],
                [Clog Error ''server'' ''getConf'' ''Invalid conf file: %s''
                   [''open /go/etc/server.ini: no such file or directory'']])"
    by (simp add: Load_def flag_String_def env_cli_def s1 s2 Load_file_def)
  have m: "ini_Load env_cli (GOPATH env_cli @ ''/etc/server.ini'')
             = Inl ''open /go/etc/server.ini: no such file or directory''"
    by (simp add: env_cli_def)
  from Load_ignores_command_line [OF l] m show ?thesis
    unfolding l by simp
qed

end
